theory Spec2Isabelle
  imports Main "HOL-Library.AList"
begin

section \<open>Value types used by Layout.cpp\<close>

text \<open>
  \<^verbatim>\<open>QSize\<close>: a pair of ints. \<^verbatim>\<open>QSize::expandedTo\<close> returns the componentwise maximum of
  the two sizes. \<open>covers a b\<close> says that \<open>a\<close> is no smaller than \<open>b\<close> in both
  directions; it is the reading of "size no smaller than the minimum size".
\<close>

record qsize =
  width :: int
  height :: int

definition expandedTo :: "qsize \<Rightarrow> qsize \<Rightarrow> qsize" where
  "expandedTo a b = \<lparr>width = max (width a) (width b), height = max (height a) (height b)\<rparr>"

definition covers :: "qsize \<Rightarrow> qsize \<Rightarrow> bool" where
  "covers a b = (width b \<le> width a \<and> height b \<le> height a)"

text \<open>
  \<^verbatim>\<open>CloseEvent\<close>: the only part of it that \<^verbatim>\<open>Layout::onCloseEvent\<close> reads or writes is the
  accepted flag (\<^verbatim>\<open>accept()\<close>, \<^verbatim>\<open>isAccepted()\<close>).
\<close>

record close_event =
  accepted :: bool

text \<open>
  A failed \<^verbatim>\<open>Q_ASSERT\<close> is an outcome of its own: the function does not return a value.
\<close>

datatype error = AssertionFailed

section \<open>Group\<close>

text \<open>
  Modelled from the spec: Core::Group (Group.cpp is not part of the sources at hand).
  A group is "a tab collection of DockWidgets": its view's id, the dock widgets in tab
  order, the current tab index and the visibility flag. A dock widget is referred to by its
  unique name. \<open>new_Group\<close> is the constructor \<^verbatim>\<open>new Core::Group(view())\<close>: no tabs yet.
  \<open>Group_insertWidget\<close> puts the dock widget at the given index when the index is a
  position of the tab order (0 up to the count). What it does with any other index is
  stated neither by the spec nor by the sources at hand: it is the parameter
  \<open>outOfRange\<close>, and nothing below depends on what that function does.
  \<open>Group_addTab\<close> puts the dock widget at the end. The first tab of an empty group
  becomes the current one ("appends the dock widget as the only tab; active tab becomes
  that widget").
\<close>

type_synonym dockwidget = string

record group =
  group_id :: string
  dockWidgets :: "dockwidget list"
  currentTabIndex :: int
  visible :: bool

definition new_Group :: "string \<Rightarrow> group" where
  "new_Group gid = \<lparr>group_id = gid, dockWidgets = [], currentTabIndex = -1, visible = False\<rparr>"

definition dockWidgetCount :: "group \<Rightarrow> int" where
  "dockWidgetCount g = int (length (dockWidgets g))"

definition Group_insertWidget :: "(dockwidget \<Rightarrow> int \<Rightarrow> group \<Rightarrow> group)
                                   \<Rightarrow> dockwidget \<Rightarrow> int \<Rightarrow> group \<Rightarrow> group" where
  "Group_insertWidget outOfRange dw index g =
     (if 0 \<le> index \<and> index \<le> dockWidgetCount g
      then g\<lparr>dockWidgets := take (nat index) (dockWidgets g) @ [dw] @ drop (nat index) (dockWidgets g),
             currentTabIndex := (if dockWidgets g = [] then 0 else currentTabIndex g)\<rparr>
      else outOfRange dw index g)"

definition Group_addTab :: "dockwidget \<Rightarrow> group \<Rightarrow> group" where
  "Group_addTab dw g =
     g\<lparr>dockWidgets := dockWidgets g @ [dw],
       currentTabIndex := (if dockWidgets g = [] then 0 else currentTabIndex g)\<rparr>"

definition Group_setVisible :: "bool \<Rightarrow> group \<Rightarrow> group" where
  "Group_setVisible b g = g\<lparr>visible := b\<rparr>"

section \<open>Item and ItemContainer\<close>

text \<open>
  Modelled from the spec: Core::Item and Core::ItemContainer (multisplitter/Item.cpp is not
  part of the sources at hand). "An Item is either a container or a leaf; a leaf always has
  exactly one guest view or is a placeholder (no guest)". A container holds an ordered
  sequence of children and an orientation. \<open>items_recursive\<close> is the "recursive item
  enumeration": the leaves, left to right. \<open>Item_restore\<close> gives a leaf its guest.
\<close>

datatype orientation = Horizontal | Vertical

datatype item =
    Item (guest: "group option")
  | ItemContainer orientation "item list"

fun isContainer :: "item \<Rightarrow> bool" where
  "isContainer (Item g) = False"
| "isContainer (ItemContainer ori cs) = True"

fun isPlaceholder :: "item \<Rightarrow> bool" where
  "isPlaceholder (Item g) = (g = None)"
| "isPlaceholder (ItemContainer ori cs) = False"

fun asGroupController :: "item \<Rightarrow> group option" where
  "asGroupController (Item g) = g"
| "asGroupController (ItemContainer ori cs) = None"

fun Item_restore :: "group \<Rightarrow> item \<Rightarrow> item" where
  "Item_restore g (Item old) = Item (Some g)"
| "Item_restore g (ItemContainer ori cs) = ItemContainer ori cs"

fun items_recursive :: "item \<Rightarrow> item list" where
  "items_recursive (Item g) = [Item g]"
| "items_recursive (ItemContainer ori cs) = concat (map items_recursive cs)"

text \<open>
  The root of a layout is an ItemContainer. Besides its children it carries the two sizes
  that Layout.cpp reads and writes: \<^verbatim>\<open>size()\<close> / \<^verbatim>\<open>setSize_recursive\<close> and
  \<^verbatim>\<open>minSize()\<close> / \<^verbatim>\<open>setMinSize\<close> (the "accumulated min size" of the spec). How
  \<^verbatim>\<open>setSize_recursive\<close> distributes the size among the children is not modelled: the
  children carry no geometry here.
\<close>

record root_item =
  root_orientation :: orientation
  root_children :: "item list"
  root_size :: qsize
  root_minSize :: qsize

definition ItemContainer_size :: "root_item \<Rightarrow> qsize" where
  "ItemContainer_size r = root_size r"

definition ItemContainer_minSize :: "root_item \<Rightarrow> qsize" where
  "ItemContainer_minSize r = root_minSize r"

definition setSize_recursive :: "qsize \<Rightarrow> root_item \<Rightarrow> root_item" where
  "setSize_recursive sz r = r\<lparr>root_size := sz\<rparr>"

definition setMinSize :: "qsize \<Rightarrow> root_item \<Rightarrow> root_item" where
  "setMinSize sz r = r\<lparr>root_minSize := sz\<rparr>"

definition root_items_recursive :: "root_item \<Rightarrow> item list" where
  "root_items_recursive r = concat (map items_recursive (root_children r))"

section \<open>Layout: state\<close>

text \<open>
  The host view as Layout.cpp uses it: its current size, changed by \<^verbatim>\<open>view()->resize\<close>,
  and the list of the \<^verbatim>\<open>resize\<close> calls it has received (oldest first).
\<close>

record host_view =
  view_size :: qsize
  resize_calls :: "qsize list"

definition View_resize :: "qsize \<Rightarrow> host_view \<Rightarrow> host_view" where
  "View_resize sz v = v\<lparr>view_size := sz, resize_calls := resize_calls v @ [sz]\<rparr>"

text \<open>
  The members of Layout that the functions below touch, the host view, the process-wide
  flag \<^verbatim>\<open>LayoutSaver::restoreInProgress()\<close> and the diagnostics written with
  \<^verbatim>\<open>qWarning()\<close>.
\<close>

record layout =
  m_rootItem :: root_item
  m_inResizeEvent :: bool
  view :: host_view
  restoreInProgress :: bool
  warnings :: "string list"

section \<open>Layout: sizes\<close>

definition layoutMinimumSize :: "layout \<Rightarrow> qsize" where
  "layoutMinimumSize L = ItemContainer_minSize (m_rootItem L)"

definition layoutSize :: "layout \<Rightarrow> qsize" where
  "layoutSize L = ItemContainer_size (m_rootItem L)"

text \<open>
  \<^verbatim>\<open>
  void Layout::setLayoutSize(QSize size)
  {
      if (size != layoutSize()) {
          m_rootItem->setSize_recursive(size);
          if (!m_inResizeEvent && !LayoutSaver::restoreInProgress())
              view()->resize(size);
      }
  }
  \<close>
\<close>

definition setLayoutSize :: "qsize \<Rightarrow> layout \<Rightarrow> layout" where
  "setLayoutSize sz L =
     (if sz \<noteq> layoutSize L then
        let L1 = L\<lparr>m_rootItem := setSize_recursive sz (m_rootItem L)\<rparr>
        in if \<not> m_inResizeEvent L1 \<and> \<not> restoreInProgress L1
           then L1\<lparr>view := View_resize sz (view L1)\<rparr>
           else L1
      else L)"

text \<open>
  \<^verbatim>\<open>
  void Layout::setLayoutMinimumSize(QSize sz)
  {
      if (sz != m_rootItem->minSize()) {
          setLayoutSize(layoutSize().expandedTo(m_rootItem->minSize()));
          m_rootItem->setMinSize(sz);
      }
  }
  \<close>
\<close>

definition setLayoutMinimumSize :: "qsize \<Rightarrow> layout \<Rightarrow> layout" where
  "setLayoutMinimumSize sz L =
     (if sz \<noteq> ItemContainer_minSize (m_rootItem L) then
        let L1 = setLayoutSize (expandedTo (layoutSize L) (ItemContainer_minSize (m_rootItem L))) L
        in L1\<lparr>m_rootItem := setMinSize sz (m_rootItem L1)\<rparr>
      else L)"

text \<open>
  \<^verbatim>\<open>
  void Layout::updateSizeConstraints()
  {
      const QSize newMinSize = m_rootItem->minSize();
      setLayoutMinimumSize(newMinSize);
  }
  \<close>
\<close>

definition updateSizeConstraints :: "layout \<Rightarrow> layout" where
  "updateSizeConstraints L =
     (let newMinSize = ItemContainer_minSize (m_rootItem L)
      in setLayoutMinimumSize newMinSize L)"

text \<open>
  \<^verbatim>\<open>
  bool Layout::onResize(QSize newSize)
  {
      QScopedValueRollback<bool> resizeGuard(m_inResizeEvent, true);
      if (!LayoutSaver::restoreInProgress())
          setLayoutSize(newSize);
      return false;
  }
  \<close>
  The rollback object sets the guard on entry and puts its former value back on exit.
\<close>

definition onResize :: "qsize \<Rightarrow> layout \<Rightarrow> bool \<times> layout" where
  "onResize newSize L =
     (let old = m_inResizeEvent L;
          L1 = L\<lparr>m_inResizeEvent := True\<rparr>;
          L2 = (if \<not> restoreInProgress L1 then setLayoutSize newSize L1 else L1)
      in (False, L2\<lparr>m_inResizeEvent := old\<rparr>))"

section \<open>Layout: items and groups\<close>

definition items :: "layout \<Rightarrow> item list" where
  "items L = root_items_recursive (m_rootItem L)"

text \<open>
  \<^verbatim>\<open>
  for (Core::Item *item : items) {
      if (auto group = item->asGroupController())
          result.push_back(group);
  }
  \<close>
\<close>

fun groups_of :: "item list \<Rightarrow> group list" where
  "groups_of [] = []"
| "groups_of (it # its) =
     (case asGroupController it of
        Some g \<Rightarrow> g # groups_of its
      | None \<Rightarrow> groups_of its)"

definition groups :: "layout \<Rightarrow> group list" where
  "groups L = groups_of (root_items_recursive (m_rootItem L))"

text \<open>
  \<^verbatim>\<open>
  void Layout::restorePlaceholder(Core::DockWidget *dw, Core::Item *item, int tabIndex)
  {
      if (item->isPlaceholder()) {
          auto newGroup = new Core::Group(view());
          item->restore(newGroup->view());
      }
      auto group = item->asGroupController();
      Q_ASSERT(group);
      if (tabIndex != -1 && group->dockWidgetCount() >= tabIndex) {
          group->insertWidget(dw, tabIndex);
      } else {
          group->addTab(dw);
      }
      group->setVisible(true);
  }
  \<close>
  The item is changed in place; the model returns the item as it is afterwards. \<open>newId\<close>
  is the id of the view of the group that the constructor creates; \<open>outOfRange\<close> is what
  \<^verbatim>\<open>Group::insertWidget\<close> does with an index that is no position of the group.
\<close>

definition restorePlaceholder :: "(dockwidget \<Rightarrow> int \<Rightarrow> group \<Rightarrow> group)
                                   \<Rightarrow> string \<Rightarrow> dockwidget \<Rightarrow> item \<Rightarrow> int \<Rightarrow> error + item" where
  "restorePlaceholder outOfRange newId dw it tabIndex =
     (let it1 = (if isPlaceholder it then Item_restore (new_Group newId) it else it)
      in case asGroupController it1 of
           None \<Rightarrow> Inl AssertionFailed
         | Some grp \<Rightarrow>
             let grp1 = (if tabIndex \<noteq> -1 \<and> dockWidgetCount grp \<ge> tabIndex
                         then Group_insertWidget outOfRange dw tabIndex grp
                         else Group_addTab dw grp)
             in Inr (Item (Some (Group_setVisible True grp1))))"

text \<open>
  \<^verbatim>\<open>
  void Layout::removeItem(Core::Item *item)
  {
      if (!item) {
          qWarning() << Q_FUNC_INFO << "nullptr item";
          return;
      }
      item->parentContainer()->removeItem(item);
  }
  \<close>
  An item pointer is \<open>None\<close> (the null pointer) or \<open>Some\<close> handle of an item.
  ItemContainer::removeItem is not part of the sources at hand: \<open>parent_removeItem\<close>
  stands for \<^verbatim>\<open>item->parentContainer()->removeItem(item)\<close>, whatever it does to the tree.
\<close>

definition removeItem :: "('i \<Rightarrow> root_item \<Rightarrow> root_item) \<Rightarrow> 'i option \<Rightarrow> layout \<Rightarrow> layout" where
  "removeItem parent_removeItem it L =
     (case it of
        None \<Rightarrow> L\<lparr>warnings := warnings L @ [''nullptr item'']\<rparr>
      | Some i \<Rightarrow> L\<lparr>m_rootItem := parent_removeItem i (m_rootItem L)\<rparr>)"

text \<open>
  \<^verbatim>\<open>
  void Layout::onCloseEvent(CloseEvent *e)
  {
      e->accept();
      const Core::Group::List groups = this->groups();
      for (Core::Group *group : groups) {
          Platform::instance()->sendEvent(group->view(), e);
          if (!e->isAccepted())
              break;
      }
  }
  \<close>
  \<open>sendEvent\<close> is the platform's delivery of the event to a group's view: what the
  group's handler does to the event. The loop returns the event and the groups that
  received it, in the order of delivery.
\<close>

fun deliver :: "(group \<Rightarrow> close_event \<Rightarrow> close_event) \<Rightarrow> group list \<Rightarrow> close_event
                  \<Rightarrow> close_event \<times> group list" where
  "deliver sendEvent [] e = (e, [])"
| "deliver sendEvent (g # gs) e =
     (let e1 = sendEvent g e
      in if \<not> accepted e1 then (e1, [g])
         else (case deliver sendEvent gs e1 of (e2, received) \<Rightarrow> (e2, g # received)))"

definition onCloseEvent :: "(group \<Rightarrow> close_event \<Rightarrow> close_event) \<Rightarrow> layout \<Rightarrow> close_event
                  \<Rightarrow> close_event \<times> group list" where
  "onCloseEvent sendEvent L e = deliver sendEvent (groups L) (e\<lparr>accepted := True\<rparr>)"

section \<open>Layout: persisted records\<close>

text \<open>
  Modelled from the spec: LayoutSaver::Group and LayoutSaver::MultiSplitter
  (LayoutSaver_p.h is not part of the sources at hand), Group::serialize and
  Group::deserialize, ItemContainer::toVariantMap and ItemContainer::fillFromVariantMap.
  The persisted layout record is "a tree description (nested split/leaf structure) plus a
  mapping from opaque group identifiers (strings) to group content records (dock widget id
  list + active tab index)". A leaf of the tree description names its group by id, or
  names none when the item is a placeholder. The visibility of a group is not part of its
  record: a group that \<open>Group_deserialize\<close> creates is not shown yet.
  The map-to-tree conversion "reconstructs the tree referencing [the groups] by id"; a
  leaf whose id is not in the table of groups gets no guest.
  The group map is a \<^verbatim>\<open>QHash\<close>: an association list with one entry per key, where
  \<^verbatim>\<open>insert\<close> replaces the value of a key that is present (\<open>AList.update\<close>).
\<close>

record saved_group =
  sg_id :: string
  sg_dockWidgets :: "dockwidget list"
  sg_currentTabIndex :: int

datatype saved_item =
    SavedItem "string option"
  | SavedContainer orientation "saved_item list"

record saved_root =
  sr_orientation :: orientation
  sr_children :: "saved_item list"
  sr_size :: qsize
  sr_minSize :: qsize

record multiSplitter =
  ms_layout :: saved_root
  ms_groups :: "(string \<times> saved_group) list"

definition Group_serialize :: "group \<Rightarrow> saved_group" where
  "Group_serialize g =
     \<lparr>sg_id = group_id g, sg_dockWidgets = dockWidgets g, sg_currentTabIndex = currentTabIndex g\<rparr>"

definition Group_deserialize :: "saved_group \<Rightarrow> group" where
  "Group_deserialize sg =
     \<lparr>group_id = sg_id sg, dockWidgets = sg_dockWidgets sg,
      currentTabIndex = sg_currentTabIndex sg, visible = False\<rparr>"

fun Item_toVariantMap :: "item \<Rightarrow> saved_item" where
  "Item_toVariantMap (Item g) = SavedItem (map_option group_id g)"
| "Item_toVariantMap (ItemContainer ori cs) = SavedContainer ori (map Item_toVariantMap cs)"

definition toVariantMap :: "root_item \<Rightarrow> saved_root" where
  "toVariantMap r =
     \<lparr>sr_orientation = root_orientation r, sr_children = map Item_toVariantMap (root_children r),
      sr_size = root_size r, sr_minSize = root_minSize r\<rparr>"

fun Item_fillFromVariantMap :: "(string \<times> group) list \<Rightarrow> saved_item \<Rightarrow> item" where
  "Item_fillFromVariantMap widgets (SavedItem None) = Item None"
| "Item_fillFromVariantMap widgets (SavedItem (Some guestId)) = Item (map_of widgets guestId)"
| "Item_fillFromVariantMap widgets (SavedContainer ori cs) =
     ItemContainer ori (map (Item_fillFromVariantMap widgets) cs)"

definition fillFromVariantMap :: "saved_root \<Rightarrow> (string \<times> group) list \<Rightarrow> root_item \<Rightarrow> root_item" where
  "fillFromVariantMap m widgets r =
     r\<lparr>root_orientation := sr_orientation m,
       root_children := map (Item_fillFromVariantMap widgets) (sr_children m),
       root_size := sr_size m, root_minSize := sr_minSize m\<rparr>"

text \<open>
  \<^verbatim>\<open>
  LayoutSaver::MultiSplitter Layout::serialize() const
  {
      LayoutSaver::MultiSplitter l;
      l.layout = m_rootItem->toVariantMap();
      const Core::Item::List items = m_rootItem->items_recursive();
      for (Core::Item *item : items) {
          if (!item->isContainer()) {
              if (auto group = item->asGroupController())
                  l.groups.insert(group->view()->id(), group->serialize());
          }
      }
      return l;
  }
  \<close>
\<close>

fun serialize_groups :: "item list \<Rightarrow> (string \<times> saved_group) list \<Rightarrow> (string \<times> saved_group) list" where
  "serialize_groups [] tbl = tbl"
| "serialize_groups (it # its) tbl =
     (if \<not> isContainer it then
        (case asGroupController it of
           Some g \<Rightarrow> serialize_groups its (AList.update (group_id g) (Group_serialize g) tbl)
         | None \<Rightarrow> serialize_groups its tbl)
      else serialize_groups its tbl)"

definition serialize :: "layout \<Rightarrow> multiSplitter" where
  "serialize L =
     \<lparr>ms_layout = toVariantMap (m_rootItem L),
      ms_groups = serialize_groups (root_items_recursive (m_rootItem L)) []\<rparr>"

text \<open>
  \<^verbatim>\<open>
  bool Layout::deserialize(const LayoutSaver::MultiSplitter &l)
  {
      QHash<QString, View *> groups;
      for (const LayoutSaver::Group &group : qAsConst(l.groups)) {
          Core::Group *f = Core::Group::deserialize(group);
          Q_ASSERT(!group.id.isEmpty());
          groups.insert(group.id, f->view());
      }
      m_rootItem->fillFromVariantMap(l.layout, groups);
      updateSizeConstraints();
      const QSize newLayoutSize = view()->size().expandedTo(m_rootItem->minSize());
      m_rootItem->setSize_recursive(newLayoutSize);
      return true;
  }
  \<close>
  The loop runs over the values of \<^verbatim>\<open>l.groups\<close> and files each new group under the id
  that its record holds.
\<close>

fun deserialize_groups :: "(string \<times> saved_group) list \<Rightarrow> (string \<times> group) list
                             \<Rightarrow> error + (string \<times> group) list" where
  "deserialize_groups [] tbl = Inr tbl"
| "deserialize_groups (entry # rest) tbl =
     (let grp = snd entry; f = Group_deserialize grp
      in if sg_id grp = [] then Inl AssertionFailed
         else deserialize_groups rest (AList.update (sg_id grp) f tbl))"

definition deserialize :: "multiSplitter \<Rightarrow> layout \<Rightarrow> error + (bool \<times> layout)" where
  "deserialize l L =
     (case deserialize_groups (ms_groups l) [] of
        Inl e \<Rightarrow> Inl e
      | Inr tbl \<Rightarrow>
          let L1 = L\<lparr>m_rootItem := fillFromVariantMap (ms_layout l) tbl (m_rootItem L)\<rparr>;
              L2 = updateSizeConstraints L1;
              newLayoutSize = expandedTo (view_size (view L2)) (ItemContainer_minSize (m_rootItem L2))
          in Inr (True, L2\<lparr>m_rootItem := setSize_recursive newLayoutSize (m_rootItem L2)\<rparr>))"

section \<open>Properties of persisted records named by the specification\<close>

text \<open>
  The specification speaks of a record whose "tree structure references an unknown group
  id" and of one that "describes a degenerate container". \<open>unknown_group_ids\<close> lists the
  group ids that the tree description names and no group record of the group map holds;
  \<open>has_empty_container\<close> finds a container without children.
\<close>

fun saved_guest_ids :: "saved_item \<Rightarrow> string list" where
  "saved_guest_ids (SavedItem None) = []"
| "saved_guest_ids (SavedItem (Some guestId)) = [guestId]"
| "saved_guest_ids (SavedContainer ori cs) = concat (map saved_guest_ids cs)"

definition unknown_group_ids :: "multiSplitter \<Rightarrow> string list" where
  "unknown_group_ids l =
     filter (\<lambda>k. k \<notin> set (map (\<lambda>entry. sg_id (snd entry)) (ms_groups l)))
       (concat (map saved_guest_ids (sr_children (ms_layout l))))"

fun has_empty_container :: "saved_item \<Rightarrow> bool" where
  "has_empty_container (SavedItem k) = False"
| "has_empty_container (SavedContainer ori cs) = (cs = [] \<or> list_ex has_empty_container cs)"

section \<open>Example states\<close>

text \<open>
  A layout with three groups and one placeholder: G1 beside a column of G2, a placeholder
  and G3. Its size (100 x 100) is below its minimum size (200 x 200).
\<close>

definition ex_G1 :: group where
  "ex_G1 = \<lparr>group_id = ''G1'', dockWidgets = [''dw1''], currentTabIndex = 0, visible = True\<rparr>"

definition ex_G2 :: group where
  "ex_G2 = \<lparr>group_id = ''G2'', dockWidgets = [''dw2'', ''dw3''], currentTabIndex = 1, visible = True\<rparr>"

definition ex_G3 :: group where
  "ex_G3 = \<lparr>group_id = ''G3'', dockWidgets = [''dw4''], currentTabIndex = 0, visible = True\<rparr>"

definition ex_root :: root_item where
  "ex_root =
     \<lparr>root_orientation = Horizontal,
      root_children =
        [Item (Some ex_G1), ItemContainer Vertical [Item (Some ex_G2), Item None, Item (Some ex_G3)]],
      root_size = \<lparr>width = 100, height = 100\<rparr>,
      root_minSize = \<lparr>width = 200, height = 200\<rparr>\<rparr>"

definition ex_layout :: layout where
  "ex_layout =
     \<lparr>m_rootItem = ex_root, m_inResizeEvent = False,
      view = \<lparr>view_size = \<lparr>width = 100, height = 100\<rparr>, resize_calls = []\<rparr>,
      restoreInProgress = False, warnings = []\<rparr>"

text \<open>The same layout inside a running onResize, and while a restore is in progress.\<close>

definition ex_layout_resizing :: layout where
  "ex_layout_resizing = ex_layout\<lparr>m_inResizeEvent := True\<rparr>"

definition ex_layout_restoring :: layout where
  "ex_layout_restoring = ex_layout\<lparr>restoreInProgress := True\<rparr>"

text \<open>A layout whose only item is a placeholder: it has no group.\<close>

definition ex_empty_layout :: layout where
  "ex_empty_layout =
     \<lparr>m_rootItem = \<lparr>root_orientation = Horizontal, root_children = [Item None],
                    root_size = \<lparr>width = 100, height = 100\<rparr>,
                    root_minSize = \<lparr>width = 0, height = 0\<rparr>\<rparr>,
      m_inResizeEvent = False,
      view = \<lparr>view_size = \<lparr>width = 100, height = 100\<rparr>, resize_calls = []\<rparr>,
      restoreInProgress = False, warnings = []\<rparr>"

text \<open>A handler of close events with which the group G2 vetoes and every other group agrees.\<close>

definition veto_G2 :: "group \<Rightarrow> close_event \<Rightarrow> close_event" where
  "veto_G2 g e = e\<lparr>accepted := (group_id g \<noteq> ''G2'')\<rparr>"

text \<open>
  One way in which insertWidget may treat an index that is no position of the group: it
  rejects the dock widget and leaves the group as it is.
\<close>

definition ex_rejecting :: "dockwidget \<Rightarrow> int \<Rightarrow> group \<Rightarrow> group" where
  "ex_rejecting dw index g = g"

text \<open>
  A persisted record whose tree names the group G9, which its group map does not hold, and
  has a container without children.
\<close>

definition ex_bad_record :: multiSplitter where
  "ex_bad_record =
     \<lparr>ms_layout = \<lparr>sr_orientation = Horizontal,
                   sr_children = [SavedItem (Some ''G9''), SavedContainer Vertical []],
                   sr_size = \<lparr>width = 100, height = 100\<rparr>,
                   sr_minSize = \<lparr>width = 0, height = 0\<rparr>\<rparr>,
      ms_groups = [(''G1'', Group_serialize ex_G1)]\<rparr>"

section \<open>Close events\<close>

lemma accepted_eq: "accepted (e::close_event) \<Longrightarrow> e = \<lparr>accepted = True\<rparr>"
  by (cases e) simp

lemma deliver_all_accept:
  "\<forall>g\<in>set gs. accepted (s g \<lparr>accepted = True\<rparr>) \<Longrightarrow>
     deliver s gs \<lparr>accepted = True\<rparr> = (\<lparr>accepted = True\<rparr>, gs)"
  by (induction gs) (auto simp: Let_def dest: accepted_eq)

lemma deliver_first_veto:
  "\<forall>g\<in>set pre. accepted (s g \<lparr>accepted = True\<rparr>) \<Longrightarrow> \<not> accepted (s v \<lparr>accepted = True\<rparr>) \<Longrightarrow>
     deliver s (pre @ v # post) \<lparr>accepted = True\<rparr> = (s v \<lparr>accepted = True\<rparr>, pre @ [v])"
  by (induction pre) (auto simp: Let_def dest: accepted_eq)

lemma deliver_accepted_iff:
  "accepted (fst (deliver s gs \<lparr>accepted = True\<rparr>))
     \<longleftrightarrow> (\<forall>g\<in>set gs. accepted (s g \<lparr>accepted = True\<rparr>))"
  by (induction gs) (auto simp: Let_def split: prod.splits dest: accepted_eq)

lemma groups_ex_layout: "groups ex_layout = [ex_G1, ex_G2, ex_G3]"
  by (simp add: groups_def ex_layout_def ex_root_def root_items_recursive_def)

lemma groups_ex_empty_layout: "groups ex_empty_layout = []"
  by (simp add: groups_def ex_empty_layout_def root_items_recursive_def)

text \<open>
  Claim C2. onCloseEvent hands the event to the groups in the order of their enumeration
  and stops at the first group that leaves it not accepted. The second component of the
  result is the list of the groups that received the event. When the groups are
  \<open>pre @ v # post\<close>, every group of \<open>pre\<close> accepts and \<open>v\<close> vetoes, exactly
  \<open>pre @ [v]\<close> receive the event, in this order, and no group of \<open>post\<close> does. When no
  group vetoes, all of them receive it. The event ends up accepted exactly when no group
  vetoes. (A group is handed an accepted event, so whether it vetoes is what its handler does
  to an accepted event.)
\<close>

theorem onCloseEvent_stops_at_first_veto:
  "(groups L = pre @ v # post \<and> (\<forall>g\<in>set pre. accepted (sendEvent g \<lparr>accepted = True\<rparr>))
       \<and> \<not> accepted (sendEvent v \<lparr>accepted = True\<rparr>)
     \<longrightarrow> onCloseEvent sendEvent L e = (sendEvent v \<lparr>accepted = True\<rparr>, pre @ [v]))
   \<and> ((\<forall>g\<in>set (groups L). accepted (sendEvent g \<lparr>accepted = True\<rparr>))
     \<longrightarrow> onCloseEvent sendEvent L e = (\<lparr>accepted = True\<rparr>, groups L))
   \<and> (accepted (fst (onCloseEvent sendEvent L e))
        \<longleftrightarrow> \<not> (\<exists>g\<in>set (groups L). \<not> accepted (sendEvent g \<lparr>accepted = True\<rparr>)))"
proof -
  have e: "e\<lparr>accepted := True\<rparr> = \<lparr>accepted = True\<rparr>" by simp
  show ?thesis
    unfolding onCloseEvent_def e
    using deliver_first_veto [of pre sendEvent v post] deliver_all_accept [of "groups L" sendEvent]
      deliver_accepted_iff [of sendEvent "groups L"]
    by auto
qed

text \<open>
  The groups are G1, G2, G3 and G2 vetoes: G1 and G2 receive the event, G3 does not, and
  the event ends up not accepted.
\<close>

theorem onCloseEvent_stops_at_first_veto_witness:
  "groups ex_layout = [ex_G1] @ ex_G2 # [ex_G3]
   \<and> accepted (veto_G2 ex_G1 \<lparr>accepted = True\<rparr>) \<and> \<not> accepted (veto_G2 ex_G2 \<lparr>accepted = True\<rparr>)
   \<and> onCloseEvent veto_G2 ex_layout \<lparr>accepted = True\<rparr> = (\<lparr>accepted = False\<rparr>, [ex_G1, ex_G2])"
  using onCloseEvent_stops_at_first_veto [of ex_layout "[ex_G1]" ex_G2 "[ex_G3]" veto_G2
      "\<lparr>accepted = True\<rparr>"]
  by (simp add: groups_ex_layout veto_G2_def ex_G1_def ex_G2_def)

text \<open>
  Claim C9. When the layout has no groups, onCloseEvent leaves the event accepted, whatever
  its state was before, and no group receives it.
\<close>

theorem onCloseEvent_no_groups:
  "groups L = [] \<Longrightarrow> onCloseEvent sendEvent L e = (\<lparr>accepted = True\<rparr>, [])"
  by (simp add: onCloseEvent_def)

theorem onCloseEvent_no_groups_witness:
  "groups ex_empty_layout = []
   \<and> onCloseEvent veto_G2 ex_empty_layout \<lparr>accepted = False\<rparr> = (\<lparr>accepted = True\<rparr>, [])"
  using onCloseEvent_no_groups [of ex_empty_layout veto_G2 "\<lparr>accepted = False\<rparr>"]
  by (simp add: groups_ex_empty_layout)

section \<open>Resizing\<close>

text \<open>
  updateSizeConstraints reads the minimum size of the root and hands it to
  setLayoutMinimumSize, which compares it with the minimum size of the root: the two are
  equal, so the body of setLayoutMinimumSize never runs on this path.
\<close>

lemma updateSizeConstraints_noop: "updateSizeConstraints L = L"
  by (simp add: updateSizeConstraints_def setLayoutMinimumSize_def)

lemma expandedTo_covers: "covers (expandedTo a b) b"
  by (simp add: covers_def expandedTo_def)

text \<open>
  Claim C4 says that after updateSizeConstraints the layout size is at least the minimum
  size of the tree, grown to it where needed. On the example layout, of size 100 x 100 and
  minimum size 200 x 200, updateSizeConstraints changes nothing: the layout size stays
  below the minimum size.
\<close>

theorem updateSizeConstraints_does_not_grow:
  "updateSizeConstraints ex_layout = ex_layout
   \<and> layoutSize (updateSizeConstraints ex_layout) = \<lparr>width = 100, height = 100\<rparr>
   \<and> layoutMinimumSize (updateSizeConstraints ex_layout) = \<lparr>width = 200, height = 200\<rparr>
   \<and> \<not> covers (layoutSize (updateSizeConstraints ex_layout))
               (layoutMinimumSize (updateSizeConstraints ex_layout))"
  by (simp add: updateSizeConstraints_def setLayoutMinimumSize_def layoutSize_def
      layoutMinimumSize_def ItemContainer_size_def ItemContainer_minSize_def ex_layout_def
      ex_root_def covers_def)

text \<open>
  Claim C3 says that onResize, called while the guard \<open>m_inResizeEvent\<close> is set, leaves
  the item tree and the host view unchanged. The tree does change: with the guard set, a
  call with a size other than the layout's resizes the root.
\<close>

theorem onResize_reentrant_resizes_tree:
  "m_inResizeEvent ex_layout_resizing
   \<and> m_rootItem (snd (onResize \<lparr>width = 300, height = 300\<rparr> ex_layout_resizing))
       \<noteq> m_rootItem ex_layout_resizing"
  by (simp add: ex_layout_resizing_def onResize_def setLayoutSize_def layoutSize_def
      ItemContainer_size_def setSize_recursive_def ex_layout_def ex_root_def Let_def)

text \<open>
  Claim C3, amended. onResize, called while the guard is set, never resizes the host view
  and leaves the guard set. It leaves the whole layout unchanged when a restore is in
  progress or the new size is the layout's size; otherwise it resizes the item tree to the
  new size, and changes nothing else.
\<close>

theorem onResize_reentrant:
  "m_inResizeEvent L \<Longrightarrow>
     onResize sz L =
       (False, if restoreInProgress L \<or> sz = layoutSize L then L
               else L\<lparr>m_rootItem := setSize_recursive sz (m_rootItem L)\<rparr>)
     \<and> view (snd (onResize sz L)) = view L
     \<and> m_inResizeEvent (snd (onResize sz L))"
  by (simp add: onResize_def setLayoutSize_def layoutSize_def Let_def)

theorem onResize_reentrant_witness:
  "m_inResizeEvent ex_layout_resizing
   \<and> onResize \<lparr>width = 100, height = 100\<rparr> ex_layout_resizing = (False, ex_layout_resizing)
   \<and> view (snd (onResize \<lparr>width = 300, height = 300\<rparr> ex_layout_resizing)) = view ex_layout_resizing"
  using onResize_reentrant [of ex_layout_resizing "\<lparr>width = 100, height = 100\<rparr>"]
    onResize_reentrant [of ex_layout_resizing "\<lparr>width = 300, height = 300\<rparr>"]
  by (simp add: ex_layout_resizing_def layoutSize_def ItemContainer_size_def ex_layout_def ex_root_def)

text \<open>
  Claim C8. While a restore is in progress, onResize changes nothing at all (it does not
  reach setLayoutSize, which would resize the tree), and setLayoutSize leaves the host view
  as it is: no \<^verbatim>\<open>resize\<close> call reaches the view.
\<close>

theorem restore_suppresses_resize:
  "restoreInProgress L \<Longrightarrow>
     onResize newSize L = (False, L) \<and> view (setLayoutSize sz L) = view L"
  by (simp add: onResize_def setLayoutSize_def Let_def)

theorem restore_suppresses_resize_witness:
  "restoreInProgress ex_layout_restoring
   \<and> onResize \<lparr>width = 300, height = 300\<rparr> ex_layout_restoring = (False, ex_layout_restoring)
   \<and> view (setLayoutSize \<lparr>width = 300, height = 300\<rparr> ex_layout_restoring)
       = \<lparr>view_size = \<lparr>width = 100, height = 100\<rparr>, resize_calls = []\<rparr>"
  using restore_suppresses_resize [of ex_layout_restoring "\<lparr>width = 300, height = 300\<rparr>"
      "\<lparr>width = 300, height = 300\<rparr>"]
  by (simp add: ex_layout_restoring_def ex_layout_def)

section \<open>Removing items and restoring placeholders\<close>

text \<open>
  Claim C6. removeItem with the null item writes a diagnostic and changes nothing else: the
  tree and the host view are as before, and the function returns normally. With an item it
  hands the removal to the item's parent container.
\<close>

theorem removeItem_null_is_noop:
  "removeItem parent_removeItem None L = L\<lparr>warnings := warnings L @ [''nullptr item'']\<rparr>
   \<and> m_rootItem (removeItem parent_removeItem None L) = m_rootItem L
   \<and> view (removeItem parent_removeItem None L) = view L
   \<and> removeItem parent_removeItem (Some i) L = L\<lparr>m_rootItem := parent_removeItem i (m_rootItem L)\<rparr>"
  by (simp add: removeItem_def)

text \<open>
  Claim C5. Let \<open>g\<close> be the group that receives the dock widget: the group of the item,
  or a new group when the item is a placeholder. For a tab index that is -1 or a position
  of \<open>g\<close> (0 up to its count), restorePlaceholder leaves the item with the group \<open>g\<close>
  in which the dock widget stands at the tab index (at the end for -1) and which is
  visible. With -1 on an empty group the dock widget is the only tab, and the current one.
  The item is no placeholder afterwards.
\<close>

theorem restorePlaceholder_inserts:
  assumes "asGroupController it = Some g \<or> (isPlaceholder it \<and> g = new_Group newId)"
    and "tabIndex = -1 \<or> (0 \<le> tabIndex \<and> tabIndex \<le> dockWidgetCount g)"
  shows "restorePlaceholder outOfRange newId dw it tabIndex =
           Inr (Item (Some (g\<lparr>dockWidgets :=
                                 (if tabIndex = -1 then dockWidgets g @ [dw]
                                  else take (nat tabIndex) (dockWidgets g) @ [dw]
                                       @ drop (nat tabIndex) (dockWidgets g)),
                               currentTabIndex := (if dockWidgets g = [] then 0 else currentTabIndex g),
                               visible := True\<rparr>)))
         \<and> (tabIndex = -1 \<and> dockWidgets g = [] \<longrightarrow>
              restorePlaceholder outOfRange newId dw it tabIndex =
                Inr (Item (Some (g\<lparr>dockWidgets := [dw], currentTabIndex := 0, visible := True\<rparr>))))
         \<and> (\<forall>it'. restorePlaceholder outOfRange newId dw it tabIndex = Inr it' \<longrightarrow>
               \<not> isPlaceholder it' \<and> (\<exists>g'. asGroupController it' = Some g' \<and> visible g'))"
proof -
  let ?it1 = "if isPlaceholder it then Item_restore (new_Group newId) it else it"
  have g: "asGroupController ?it1 = Some g"
    using assms(1) by (cases it) auto
  show ?thesis
    using assms(2) g
    by (auto simp: restorePlaceholder_def Let_def Group_insertWidget_def Group_addTab_def
        Group_setVisible_def dockWidgetCount_def)
qed

theorem restorePlaceholder_inserts_witness:
  "isPlaceholder (Item None)
   \<and> restorePlaceholder ex_rejecting ''new'' ''dwX'' (Item None) (-1)
       = Inr (Item (Some \<lparr>group_id = ''new'', dockWidgets = [''dwX''], currentTabIndex = 0, visible = True\<rparr>))
   \<and> asGroupController (Item (Some ex_G2)) = Some ex_G2 \<and> 1 \<le> dockWidgetCount ex_G2
   \<and> restorePlaceholder ex_rejecting ''new'' ''dwX'' (Item (Some ex_G2)) 1
       = Inr (Item (Some \<lparr>group_id = ''G2'', dockWidgets = [''dw2'', ''dwX'', ''dw3''], currentTabIndex = 1, visible = True\<rparr>))"
  using restorePlaceholder_inserts [of "Item None" "new_Group ''new''" "''new''" "-1" ex_rejecting "''dwX''"]
    restorePlaceholder_inserts [of "Item (Some ex_G2)" ex_G2 "''new''" 1 ex_rejecting "''dwX''"]
  by (simp add: new_Group_def ex_G2_def dockWidgetCount_def)

text \<open>
  Claim C10. With \<open>g\<close> as above: when the tab index is greater than the count of
  \<open>g\<close> (or is -1), restorePlaceholder adds the dock widget with addTab, as the last tab,
  whatever insertWidget would do with that index (so the dock widget is neither inserted
  at the tab index nor rejected). It hands the dock widget to insertWidget, with the tab
  index, exactly when the index is not -1 and at most the count.
\<close>

theorem restorePlaceholder_out_of_range_appends:
  assumes "asGroupController it = Some g \<or> (isPlaceholder it \<and> g = new_Group newId)"
  shows "(dockWidgetCount g < tabIndex \<or> tabIndex = -1 \<longrightarrow>
            restorePlaceholder outOfRange newId dw it tabIndex
              = Inr (Item (Some (Group_setVisible True (Group_addTab dw g))))
            \<and> dockWidgets (Group_addTab dw g) = dockWidgets g @ [dw])
       \<and> (tabIndex \<noteq> -1 \<and> tabIndex \<le> dockWidgetCount g \<longrightarrow>
            restorePlaceholder outOfRange newId dw it tabIndex
              = Inr (Item (Some (Group_setVisible True (Group_insertWidget outOfRange dw tabIndex g)))))"
proof -
  let ?it1 = "if isPlaceholder it then Item_restore (new_Group newId) it else it"
  have g: "asGroupController ?it1 = Some g"
    using assms(1) by (cases it) auto
  show ?thesis
    using g by (auto simp: restorePlaceholder_def Let_def Group_addTab_def)
qed

text \<open>
  The group G2 has two tabs and the tab index is 5. An insertWidget that rejects such an
  index would leave G2 as it is; restorePlaceholder appends the dock widget all the same.
\<close>

theorem restorePlaceholder_out_of_range_appends_witness:
  "asGroupController (Item (Some ex_G2)) = Some ex_G2 \<and> dockWidgetCount ex_G2 < 5
   \<and> Group_insertWidget ex_rejecting ''dwX'' 5 ex_G2 = ex_G2
   \<and> restorePlaceholder ex_rejecting ''new'' ''dwX'' (Item (Some ex_G2)) 5
       = Inr (Item (Some \<lparr>group_id = ''G2'', dockWidgets = [''dw2'', ''dw3'', ''dwX''], currentTabIndex = 1, visible = True\<rparr>))"
  using restorePlaceholder_out_of_range_appends [of "Item (Some ex_G2)" ex_G2 "''new''" 5 ex_rejecting "''dwX''"]
  by (simp add: ex_G2_def dockWidgetCount_def Group_addTab_def Group_insertWidget_def
      Group_setVisible_def ex_rejecting_def)

section \<open>Saving and restoring\<close>

lemma update_fresh: "k \<notin> fst ` set al \<Longrightarrow> AList.update k v al = al @ [(k, v)]"
  by (induction al) auto

lemma groups_of_append: "groups_of (xs @ ys) = groups_of xs @ groups_of ys"
  by (induction xs) (auto split: option.splits)

lemma groups_of_concat: "groups_of (concat xss) = concat (map groups_of xss)"
  by (induction xss) (auto simp: groups_of_append)

lemma serialize_groups_distinct:
  "distinct (map group_id (groups_of its)) \<Longrightarrow>
   set (map group_id (groups_of its)) \<inter> fst ` set tbl = {} \<Longrightarrow>
   serialize_groups its tbl = tbl @ map (\<lambda>g. (group_id g, Group_serialize g)) (groups_of its)"
proof (induction its arbitrary: tbl)
  case Nil
  then show ?case by simp
next
  case (Cons it its)
  show ?case
  proof (cases "asGroupController it")
    case None
    with Cons show ?thesis by simp
  next
    case (Some g)
    then have leaf: "\<not> isContainer it" by (cases it) auto
    from Cons.prems Some have fresh: "group_id g \<notin> fst ` set tbl" by auto
    have upd: "AList.update (group_id g) (Group_serialize g) tbl = tbl @ [(group_id g, Group_serialize g)]"
      using fresh by (rule update_fresh)
    have d: "distinct (map group_id (groups_of its))"
      using Cons.prems(1) Some by simp
    have disj: "set (map group_id (groups_of its)) \<inter> fst ` set (tbl @ [(group_id g, Group_serialize g)]) = {}"
      using Cons.prems Some by auto
    show ?thesis
      using Cons.IH [OF d disj] Some leaf upd by simp
  qed
qed

lemma deserialize_groups_distinct:
  "distinct (map group_id gs) \<Longrightarrow> \<forall>g\<in>set gs. group_id g \<noteq> [] \<Longrightarrow>
   set (map group_id gs) \<inter> fst ` set tbl = {} \<Longrightarrow>
   deserialize_groups (map (\<lambda>g. (group_id g, Group_serialize g)) gs) tbl
     = Inr (tbl @ map (\<lambda>g. (group_id g, Group_deserialize (Group_serialize g))) gs)"
proof (induction gs arbitrary: tbl)
  case Nil
  then show ?case by simp
next
  case (Cons g gs)
  have id: "sg_id (Group_serialize g) = group_id g" by (simp add: Group_serialize_def)
  from Cons.prems have fresh: "group_id g \<notin> fst ` set tbl" by auto
  have upd: "AList.update (group_id g) (Group_deserialize (Group_serialize g)) tbl
               = tbl @ [(group_id g, Group_deserialize (Group_serialize g))]"
    using fresh by (rule update_fresh)
  have d: "distinct (map group_id gs)" using Cons.prems(1) by simp
  have ne: "\<forall>g\<in>set gs. group_id g \<noteq> []" using Cons.prems(2) by simp
  have disj: "set (map group_id gs) \<inter> fst ` set (tbl @ [(group_id g, Group_deserialize (Group_serialize g))]) = {}"
    using Cons.prems by auto
  show ?case
    using Cons.IH [OF d ne disj] Cons.prems(2) id upd by (simp add: Let_def)
qed

lemma lookup_group:
  assumes "distinct (map group_id gs)" and "g \<in> set gs"
  shows "map_of (map (\<lambda>g. (group_id g, h g)) gs) (group_id g) = Some (h g)"
proof -
  have "distinct (map fst (map (\<lambda>g. (group_id g, h g)) gs))"
    using assms(1) by (simp add: comp_def)
  moreover have "(group_id g, h g) \<in> set (map (\<lambda>g. (group_id g, h g)) gs)"
    using assms(2) by auto
  ultimately show ?thesis by (rule map_of_is_SomeI)
qed

lemma fill_structure:
  "distinct (map group_id gs) \<Longrightarrow> set (groups_of (items_recursive it)) \<subseteq> set gs \<Longrightarrow>
   (\<And>g. group_id (h g) = group_id g) \<Longrightarrow>
   Item_toVariantMap (Item_fillFromVariantMap (map (\<lambda>g. (group_id g, h g)) gs) (Item_toVariantMap it))
     = Item_toVariantMap it"
proof (induction it)
  case (Item x)
  then show ?case
  proof (cases x)
    case None
    then show ?thesis by simp
  next
    case (Some g)
    with Item have "g \<in> set gs" by simp
    then show ?thesis
      using Some lookup_group [OF Item.prems(1), of g h] Item.prems(3) by simp
  qed
next
  case (ItemContainer ori cs)
  have "\<And>c. c \<in> set cs \<Longrightarrow> set (groups_of (items_recursive c)) \<subseteq> set gs"
    using ItemContainer.prems(2) by (auto simp: groups_of_concat)
  then show ?case
    using ItemContainer.IH ItemContainer.prems(1,3) by simp
qed

lemma fill_groups:
  "distinct (map group_id gs) \<Longrightarrow> set (groups_of (items_recursive it)) \<subseteq> set gs \<Longrightarrow>
   (\<And>g. group_id (h g) = group_id g) \<Longrightarrow>
   groups_of (items_recursive
       (Item_fillFromVariantMap (map (\<lambda>g. (group_id g, h g)) gs) (Item_toVariantMap it)))
     = map h (groups_of (items_recursive it))"
proof (induction it)
  case (Item x)
  then show ?case
  proof (cases x)
    case None
    then show ?thesis by simp
  next
    case (Some g)
    with Item have "g \<in> set gs" by simp
    then show ?thesis
      using Some lookup_group [OF Item.prems(1), of g h] by simp
  qed
next
  case (ItemContainer ori cs)
  have sub: "\<And>c. c \<in> set cs \<Longrightarrow> set (groups_of (items_recursive c)) \<subseteq> set gs"
    using ItemContainer.prems(2) by (auto simp: groups_of_concat)
  have "\<And>c. c \<in> set cs \<Longrightarrow>
          groups_of (items_recursive
            (Item_fillFromVariantMap (map (\<lambda>g. (group_id g, h g)) gs) (Item_toVariantMap c)))
          = map h (groups_of (items_recursive c))"
    using ItemContainer.IH ItemContainer.prems(1,3) sub by blast
  then show ?case
    by (simp add: groups_of_concat map_concat comp_def cong: map_cong)
qed

lemma hide: "Group_deserialize (Group_serialize g) = g\<lparr>visible := False\<rparr>"
  by (simp add: Group_deserialize_def Group_serialize_def)

text \<open>
  Claim C1. Let the groups of a layout have distinct, non-empty ids (an id names one view).
  Restoring the record that serialize produces, into any layout, succeeds and gives a
  layout with the same group ids, the same tree (the same containers with the same
  orientations and children, the same group or placeholder at every leaf), the same dock
  widgets and current tab in every group, and a size that is no smaller than its minimum
  size.
\<close>

theorem deserialize_serialize:
  assumes "distinct (map group_id (groups L))" and "\<forall>g\<in>set (groups L). group_id g \<noteq> []"
  shows "\<exists>L'. deserialize (serialize L) L0 = Inr (True, L')
           \<and> set (map group_id (groups L')) = set (map group_id (groups L))
           \<and> root_orientation (m_rootItem L') = root_orientation (m_rootItem L)
           \<and> map Item_toVariantMap (root_children (m_rootItem L'))
               = map Item_toVariantMap (root_children (m_rootItem L))
           \<and> map (\<lambda>g. (group_id g, dockWidgets g, currentTabIndex g)) (groups L')
               = map (\<lambda>g. (group_id g, dockWidgets g, currentTabIndex g)) (groups L)
           \<and> covers (layoutSize L') (layoutMinimumSize L')"
proof -
  let ?gs = "groups L"
  let ?h = "\<lambda>g. Group_deserialize (Group_serialize g)"
  let ?W = "map (\<lambda>g. (group_id g, ?h g)) ?gs"
  have gs: "groups_of (root_items_recursive (m_rootItem L)) = ?gs"
    by (simp add: groups_def)
  have ser: "ms_groups (serialize L) = map (\<lambda>g. (group_id g, Group_serialize g)) ?gs"
    using serialize_groups_distinct [of "root_items_recursive (m_rootItem L)" "[]"] assms(1)
    by (simp add: serialize_def gs)
  have des: "deserialize_groups (ms_groups (serialize L)) [] = Inr ?W"
    using deserialize_groups_distinct [OF assms(1) assms(2), of "[]"] by (simp add: ser)
  define R where "R = fillFromVariantMap (ms_layout (serialize L)) ?W (m_rootItem L0)"
  define L' where "L' = L0\<lparr>m_rootItem :=
      setSize_recursive (expandedTo (view_size (view L0)) (ItemContainer_minSize R)) R\<rparr>"
  have res: "deserialize (serialize L) L0 = Inr (True, L')"
    by (simp add: deserialize_def des updateSizeConstraints_noop Let_def L'_def R_def)
  have sub: "\<And>c. c \<in> set (root_children (m_rootItem L)) \<Longrightarrow>
               set (groups_of (items_recursive c)) \<subseteq> set ?gs"
    by (auto simp: groups_def root_items_recursive_def groups_of_concat)
  have children: "root_children (m_rootItem L')
      = map (\<lambda>c. Item_fillFromVariantMap ?W (Item_toVariantMap c)) (root_children (m_rootItem L))"
    by (simp add: L'_def R_def setSize_recursive_def fillFromVariantMap_def serialize_def
        toVariantMap_def comp_def)
  have idh: "\<And>g. group_id (?h g) = group_id g"
    by (simp add: hide)
  have struct: "map Item_toVariantMap (root_children (m_rootItem L'))
      = map Item_toVariantMap (root_children (m_rootItem L))"
    using fill_structure [OF assms(1) sub, of _ ?h] idh by (simp add: children comp_def)
  have grp: "groups L' = map ?h ?gs"
    using fill_groups [OF assms(1) sub, of _ ?h] idh
    by (simp add: groups_def [of L'] root_items_recursive_def children groups_of_concat
        map_concat comp_def groups_def [of L] cong: map_cong)
  have ori: "root_orientation (m_rootItem L') = root_orientation (m_rootItem L)"
    by (simp add: L'_def R_def setSize_recursive_def fillFromVariantMap_def serialize_def
        toVariantMap_def)
  have size: "covers (layoutSize L') (layoutMinimumSize L')"
    using expandedTo_covers [of "view_size (view L0)" "ItemContainer_minSize R"]
    by (simp add: L'_def layoutSize_def layoutMinimumSize_def ItemContainer_size_def
        ItemContainer_minSize_def setSize_recursive_def)
  have ids: "map group_id (groups L') = map group_id ?gs"
    by (simp add: grp hide comp_def)
  have content: "map (\<lambda>g. (group_id g, dockWidgets g, currentTabIndex g)) (groups L')
      = map (\<lambda>g. (group_id g, dockWidgets g, currentTabIndex g)) ?gs"
    by (simp add: grp hide comp_def)
  have idset: "set (map group_id (groups L')) = set (map group_id ?gs)"
    by (simp only: ids)
  show ?thesis
    using res idset ori struct content size by blast
qed

lemma ex_layout_ids: "map group_id (groups ex_layout) = [''G1'', ''G2'', ''G3'']"
  by (simp add: groups_ex_layout ex_G1_def ex_G2_def ex_G3_def)

lemma ex_layout_tree:
  "map Item_toVariantMap (root_children (m_rootItem ex_layout))
      = [SavedItem (Some ''G1''),
         SavedContainer Vertical [SavedItem (Some ''G2''), SavedItem None, SavedItem (Some ''G3'')]]"
  by (simp add: ex_layout_def ex_root_def ex_G1_def ex_G2_def ex_G3_def)

text \<open>
  The example layout, saved and restored into the layout that holds one placeholder: the
  ids, the tree and the size come out as stated.
\<close>

theorem deserialize_serialize_witness:
  "map group_id (groups ex_layout) = [''G1'', ''G2'', ''G3'']
   \<and> (\<exists>L'. deserialize (serialize ex_layout) ex_empty_layout = Inr (True, L')
         \<and> set (map group_id (groups L')) = set [''G1'', ''G2'', ''G3'']
         \<and> map Item_toVariantMap (root_children (m_rootItem L'))
             = [SavedItem (Some ''G1''),
                SavedContainer Vertical [SavedItem (Some ''G2''), SavedItem None, SavedItem (Some ''G3'')]]
         \<and> covers (layoutSize L') (layoutMinimumSize L'))"
proof -
  have d: "distinct (map group_id (groups ex_layout))"
    by (simp add: ex_layout_ids)
  have n: "\<forall>g\<in>set (groups ex_layout). group_id g \<noteq> []"
    by (simp add: groups_ex_layout ex_G1_def ex_G2_def ex_G3_def)
  obtain L' where r: "deserialize (serialize ex_layout) ex_empty_layout = Inr (True, L')"
    and i: "set (map group_id (groups L')) = set (map group_id (groups ex_layout))"
    and t: "map Item_toVariantMap (root_children (m_rootItem L'))
               = map Item_toVariantMap (root_children (m_rootItem ex_layout))"
    and c: "covers (layoutSize L') (layoutMinimumSize L')"
    using deserialize_serialize [OF d n, of ex_empty_layout] by blast
  have i2: "set (map group_id (groups L')) = set [''G1'', ''G2'', ''G3'']"
    using i by (simp only: ex_layout_ids)
  have t2: "map Item_toVariantMap (root_children (m_rootItem L'))
             = [SavedItem (Some ''G1''),
                SavedContainer Vertical [SavedItem (Some ''G2''), SavedItem None, SavedItem (Some ''G3'')]]"
    using t by (simp only: ex_layout_tree)
  show ?thesis
    by (intro conjI exI [of _ L'] ex_layout_ids r i2 t2 c)
qed

lemma deserialize_groups_succeeds:
  "\<forall>entry\<in>set es. sg_id (snd entry) \<noteq> [] \<Longrightarrow> \<exists>tbl'. deserialize_groups es tbl = Inr tbl'"
  by (induction es arbitrary: tbl) (auto simp: Let_def)

lemma deserialize_ex_bad_record:
  "deserialize ex_bad_record ex_empty_layout =
     Inr (True, ex_empty_layout\<lparr>m_rootItem :=
        \<lparr>root_orientation = Horizontal, root_children = [Item None, ItemContainer Vertical []],
         root_size = \<lparr>width = 100, height = 100\<rparr>, root_minSize = \<lparr>width = 0, height = 0\<rparr>\<rparr>\<rparr>)"
  by (simp add: ex_bad_record_def deserialize_def Group_serialize_def
      Group_deserialize_def ex_G1_def Let_def updateSizeConstraints_noop fillFromVariantMap_def
      setSize_recursive_def ex_empty_layout_def ItemContainer_minSize_def expandedTo_def)

lemma unknown_ex_bad_record: "unknown_group_ids ex_bad_record = [''G9'']"
  by (simp add: unknown_group_ids_def ex_bad_record_def Group_serialize_def ex_G1_def)

lemma degenerate_ex_bad_record:
  "list_ex has_empty_container (sr_children (ms_layout ex_bad_record))"
  by (simp add: ex_bad_record_def)

lemma ids_ex_bad_record: "\<forall>entry\<in>set (ms_groups ex_bad_record). sg_id (snd entry) \<noteq> []"
  by (simp add: ex_bad_record_def Group_serialize_def ex_G1_def)

text \<open>
  Claim C7 says that deserialize fails with a RestoreError on a record whose tree names a
  group id that the group map does not hold, or that has a degenerate container. The
  example record does both, and deserialize returns true on it: the leaf of the unknown
  group comes out without guest, and the empty container stays in the tree.
\<close>

theorem deserialize_accepts_malformed_record:
  "unknown_group_ids ex_bad_record = [''G9'']
   \<and> list_ex has_empty_container (sr_children (ms_layout ex_bad_record))
   \<and> \<not> isl (deserialize ex_bad_record ex_empty_layout)
   \<and> fst (projr (deserialize ex_bad_record ex_empty_layout)) = True
   \<and> root_children (m_rootItem (snd (projr (deserialize ex_bad_record ex_empty_layout))))
       = [Item None, ItemContainer Vertical []]"
  by (simp add: unknown_ex_bad_record degenerate_ex_bad_record deserialize_ex_bad_record)

text \<open>
  Claim C7, amended. deserialize returns true on every record whose group records have
  non-empty ids (the condition of its own assertion), also when the tree names an unknown
  group or holds a degenerate container; it returns false on no record at all.
\<close>

theorem deserialize_returns_true:
  "((\<forall>entry\<in>set (ms_groups l). sg_id (snd entry) \<noteq> []) \<longrightarrow>
       (\<exists>L'. deserialize l L = Inr (True, L')))
   \<and> (\<forall>L'. deserialize l L \<noteq> Inr (False, L'))"
proof -
  have "\<exists>L'. deserialize l L = Inr (True, L')"
    if ids: "\<forall>entry\<in>set (ms_groups l). sg_id (snd entry) \<noteq> []"
  proof -
    obtain tbl where "deserialize_groups (ms_groups l) [] = Inr tbl"
      using deserialize_groups_succeeds [OF ids] by blast
    then show ?thesis by (simp add: deserialize_def Let_def)
  qed
  moreover have "\<forall>L'. deserialize l L \<noteq> Inr (False, L')"
    by (auto simp: deserialize_def Let_def split: sum.splits)
  ultimately show ?thesis by blast
qed

theorem deserialize_returns_true_witness:
  "map (\<lambda>entry. sg_id (snd entry)) (ms_groups ex_bad_record) = [''G1'']
   \<and> unknown_group_ids ex_bad_record = [''G9'']
   \<and> (\<exists>L'. deserialize ex_bad_record ex_empty_layout = Inr (True, L'))"
proof -
  have "\<exists>L'. deserialize ex_bad_record ex_empty_layout = Inr (True, L')"
    using deserialize_returns_true [of ex_bad_record ex_empty_layout] ids_ex_bad_record
    by blast
  moreover have "map (\<lambda>entry. sg_id (snd entry)) (ms_groups ex_bad_record) = [''G1'']"
    by (simp add: ex_bad_record_def Group_serialize_def ex_G1_def)
  ultimately show ?thesis
    using unknown_ex_bad_record by (intro conjI)
qed

end
